theory Spec2Isabelle
  imports Complex_Main
begin

section \<open>The ensemble builder of nengo (nengo/builder/ensemble.py)\<close>

text \<open>
  A shallow embedding of \<^verbatim>\<open>sample\<close>, \<^verbatim>\<open>gen_eval_points\<close>, \<^verbatim>\<open>get_gain_bias\<close> and
  \<^verbatim>\<open>build_ensemble\<close>. The build state (the \<^verbatim>\<open>Model\<close> object, the store of
  \<^verbatim>\<open>Signal\<close> objects and the log of \<^verbatim>\<open>warnings.warn\<close>) is passed explicitly and
  returned also when the build raises, since Python keeps every mutation made before
  the exception. Exceptions are values of type \<open>error\<close>.

  Numbers: \<^verbatim>\<open>np.float64\<close> is idealised as \<open>real\<close> (exact arithmetic, no rounding, no
  \<^verbatim>\<open>inf\<close> or \<^verbatim>\<open>nan\<close>); HOL's \<open>x / 0 = 0\<close> stands where numpy yields \<^verbatim>\<open>inf\<close> or
  \<^verbatim>\<open>nan\<close> with a warning, so statements about quotients carry the hypothesis that
  the divisor is not zero wherever the value matters.
\<close>

subsection \<open>Arrays\<close>

text \<open>
  Arrays of declared rank are typed by their rank: a 1-dimensional float array is a
  \<open>vector\<close>, a 2-dimensional one a \<open>matrix\<close> (the list of its rows). The eval-point
  array is the one array whose rank the code itself checks; it is an \<open>ndarray\<close> of any
  rank, given as numpy holds it: a shape and the flat data.
\<close>

type_synonym vector = "real list"
type_synonym matrix = "real list list"

datatype ndarray = NDArray (shape: "nat list") (data: "real list")

definition ndim :: "ndarray \<Rightarrow> nat" where
  "ndim a = length (shape a)"

text \<open>\<^verbatim>\<open>np.zeros(n)\<close> and \<^verbatim>\<open>np.identity(n)\<close>.\<close>

definition zeros :: "nat \<Rightarrow> vector" where
  "zeros n = replicate n 0"

definition identity :: "nat \<Rightarrow> matrix" where
  "identity n = map (\<lambda>i. map (\<lambda>j. if i = j then 1 else 0) [0..<n]) [0..<n]"

text \<open>\<^verbatim>\<open>a *= r\<close> on an array of any rank: every coordinate is multiplied, the shape stays.\<close>

definition scale_array :: "ndarray \<Rightarrow> real \<Rightarrow> ndarray" where
  "scale_array a r = NDArray (shape a) (map (\<lambda>x. x * r) (data a))"

text \<open>The Euclidean norm of one row.\<close>

definition euclid_norm :: "vector \<Rightarrow> real" where
  "euclid_norm row = sqrt (sum_list (map (\<lambda>x. x\<^sup>2) row))"

text \<open>
  Modelled from the spec: \<^verbatim>\<open>nengo.utils.numpy.norm\<close> is not among the source files. The
  spec says that the encoder step "normalizes every row to unit Euclidean length", so
  \<^verbatim>\<open>npext.norm(encoders, axis=1, keepdims=True)\<close> is the column of the Euclidean norms
  of the rows.
\<close>

definition npext_norm :: "matrix \<Rightarrow> vector" where
  "npext_norm E = map euclid_norm E"

text \<open>
  \<^verbatim>\<open>E /= c\<close> for an \<open>N \<times> D\<close> matrix and an \<open>N \<times> 1\<close> column: row \<open>i\<close> is divided by
  \<open>c[i]\<close>. The column comes from \<open>npext_norm E\<close>, so the row counts agree.
\<close>

definition div_column :: "matrix \<Rightarrow> vector \<Rightarrow> matrix" where
  "div_column E c = map2 (\<lambda>row w. map (\<lambda>x. x / w) row) E c"

subsection \<open>Exceptions\<close>

datatype error =
    AssertionError
  | IndexError
  | KeyError
  | NotImplementedError string
  | ValueError

text \<open>
  \<^verbatim>\<open>E * c[:, np.newaxis]\<close> for an \<open>N \<times> D\<close> matrix and a vector of length \<open>M\<close>: the
  vector becomes an \<open>M \<times> 1\<close> column and numpy broadcasts. Equal row counts multiply
  row by row; a column of one entry scales every row; a matrix of one row is repeated
  for every entry; any other pair of row counts raises \<^verbatim>\<open>ValueError\<close>.
\<close>

definition mul_column :: "matrix \<Rightarrow> vector \<Rightarrow> error + matrix" where
  "mul_column E c =
     (if length E = length c then Inr (map2 (\<lambda>row w. map (\<lambda>x. x * w) row) E c)
      else if length c = 1 then Inr (map (\<lambda>row. map (\<lambda>x. x * hd c) row) E)
      else if length E = 1 then Inr (map (\<lambda>w. map (\<lambda>x. x * w) (hd E)) c)
      else Inl ValueError)"

subsection \<open>Random state, distributions and \<^verbatim>\<open>sample\<close>\<close>

text \<open>
  The state of a \<^verbatim>\<open>np.random.RandomState\<close> is a value; the constructor derives it
  from the seed alone. A \<^verbatim>\<open>Distribution\<close> object is its method
  \<^verbatim>\<open>sample(n, d, rng)\<close>, which returns the array drawn and the advanced state of the
  generator it was given. Anything else is a literal array.
\<close>

datatype rng = RngState nat

definition RandomState :: "nat \<Rightarrow> rng" where
  "RandomState seed = RngState seed"

datatype 'a spec =
    Distribution "nat \<Rightarrow> nat option \<Rightarrow> rng \<Rightarrow> 'a \<times> rng"
  | Literal 'a

text \<open>
  \<^verbatim>\<open>sample(dist, n, d, rng)\<close>: \<^verbatim>\<open>astype(np.float64)\<close> and
  \<^verbatim>\<open>np.array(dist, dtype=np.float64)\<close> leave a float array as it is.
\<close>

fun sample :: "'a spec \<Rightarrow> nat \<Rightarrow> nat option \<Rightarrow> rng \<Rightarrow> 'a \<times> rng" where
  "sample (Distribution f) n d rng = f n d rng"
| "sample (Literal a) n d rng = (a, rng)"

subsection \<open>Signals, operators and the model\<close>

text \<open>
  A \<^verbatim>\<open>Signal\<close> object lives in the store \<open>signals\<close> of the build state; its identity
  is its index there, and \<^verbatim>\<open>model.sig\<close> holds such references, so that two roles
  naming the same object hold the same reference.
\<close>

type_synonym ref = nat

datatype sigvalue = Vec vector | Mat matrix

datatype signal = Signal (initial_value: sigvalue) (name: string) (readonly: bool)

datatype operator =
    Reset ref
  | Copy ref ref
  | DotInc ref ref ref string
  | SubOp string "ref list"

text \<open>The keys of \<^verbatim>\<open>model.sig\<close>: an ensemble \<^verbatim>\<open>ens\<close> and its \<^verbatim>\<open>ens.neurons\<close>.\<close>

datatype entity = Ens nat | Neurons nat

text \<open>
  Modelled from the spec: the neuron types and the noise processes, and their build
  functions reached through \<^verbatim>\<open>model.build\<close>, are not among the source files. A neuron
  type is pass-through (\<^verbatim>\<open>Direct\<close>) or not, has the capability
  \<^verbatim>\<open>gain_bias(max_rates, intercepts) -> (gain, bias)\<close> and "a sub-builder that
  emits its own operators against provided input/output signals"; a noise process has
  "a sub-builder that emits operators incrementing a target signal".
\<close>

datatype neuron_type =
  NeuronType (is_Direct: bool)
             (gain_bias: "vector \<Rightarrow> vector \<Rightarrow> vector \<times> vector")
             (build_neurons: "ref \<Rightarrow> ref \<Rightarrow> operator list")

datatype process = Process (build_process: "ref \<Rightarrow> operator list")

text \<open>
  The fields of \<^verbatim>\<open>Ensemble\<close> that the builder reads. \<open>ens_id\<close> is the identity of the
  object (the key of \<^verbatim>\<open>model.seeds\<close>, \<^verbatim>\<open>model.sig\<close> and \<^verbatim>\<open>model.params\<close>) and
  \<open>ens_str\<close> the text of \<^verbatim>\<open>"%s" % ens\<close>. The fields \<^verbatim>\<open>ens.eval_points\<close>,
  \<^verbatim>\<open>ens.encoders\<close>, \<^verbatim>\<open>ens.gain\<close>, \<^verbatim>\<open>ens.bias\<close>, \<^verbatim>\<open>ens.max_rates\<close> and
  \<^verbatim>\<open>ens.intercepts\<close> carry the prefix \<open>ens_\<close>, since \<^verbatim>\<open>BuiltEnsemble\<close> has fields of the
  same names. A gain, bias, max-rate or intercept spec is a distribution or a literal
  vector, an encoder spec a distribution or a literal matrix; \<^verbatim>\<open>None\<close> is \<open>None\<close>.
\<close>

record Ensemble =
  ens_id :: nat
  ens_str :: string
  dimensions :: nat
  n_neurons :: nat
  radius :: real
  neuron_type :: neuron_type
  ens_eval_points :: "ndarray spec"
  n_eval_points :: "nat option"
  ens_encoders :: "matrix spec"
  ens_gain :: "vector spec option"
  ens_bias :: "vector spec option"
  ens_max_rates :: "vector spec"
  ens_intercepts :: "vector spec"
  noise :: "process option"

record BuiltEnsemble =
  eval_points :: ndarray
  encoders :: matrix
  intercepts :: "vector option"
  max_rates :: "vector option"
  scaled_encoders :: matrix
  gain :: vector
  bias :: vector

text \<open>
  The build state: the \<^verbatim>\<open>Model\<close> with its seed table, signal registry, operator list
  and result table, the store of the \<^verbatim>\<open>Signal\<close> objects allocated so far, and the
  warnings emitted so far. The seed table is total: the network builder, which is not
  among the source files, gives every ensemble a seed before \<^verbatim>\<open>build_ensemble\<close> runs.
  \<^verbatim>\<open>model.sig\<close> is a dictionary of dictionaries that creates the inner one on first
  use; it is a map from an object and a role to a reference.
\<close>

record Model =
  seeds :: "nat \<Rightarrow> nat"
  sig :: "entity \<times> string \<rightharpoonup> ref"
  operators :: "operator list"
  params :: "nat \<rightharpoonup> BuiltEnsemble"
  signals :: "signal list"
  warnings :: "string list"

definition alloc :: "signal \<Rightarrow> Model \<Rightarrow> ref \<times> Model" where
  "alloc s model = (length (signals model), model\<lparr>signals := signals model @ [s]\<rparr>)"

definition set_sig :: "entity \<Rightarrow> string \<Rightarrow> ref \<Rightarrow> Model \<Rightarrow> Model" where
  "set_sig k role r model = model\<lparr>sig := (sig model)((k, role) \<mapsto> r)\<rparr>"

text \<open>
  Modelled from the spec: \<^verbatim>\<open>Model.add_op\<close> is not among the source files. The spec gives
  the build context the capability to "register an operator"; the model appends the
  operator to the operator list and does nothing else. Checks that the method may run
  on the operator while registering it are not part of the model, so a statement that
  a build succeeds is a statement about registration as the spec describes it, and
  is made only for arrays of the declared shapes (\<open>declared_shapes\<close> below).
  \<open>add_ops\<close> registers the operators of a sub-builder in order.
\<close>

definition add_op :: "operator \<Rightarrow> Model \<Rightarrow> Model" where
  "add_op opr model = model\<lparr>operators := operators model @ [opr]\<rparr>"

definition add_ops :: "operator list \<Rightarrow> Model \<Rightarrow> Model" where
  "add_ops oprs model = model\<lparr>operators := operators model @ oprs\<rparr>"

subsection \<open>\<^verbatim>\<open>gen_eval_points\<close>\<close>

definition mismatch_warning :: string where
  "mismatch_warning =
     ''Number of eval_points doesn'' @ [CHR 0x27] @
     ''t match n_eval_points. Ignoring n_eval_points.''"

text \<open>
  The literal branch first compares \<^verbatim>\<open>eval_points.shape[0]\<close> with the override, when
  one is set (\<^verbatim>\<open>shape[0]\<close> of a 0-dimensional array raises \<^verbatim>\<open>IndexError\<close>), and
  warns on a mismatch; then it asserts \<^verbatim>\<open>ndim == 2\<close>; the scaling comes last. The
  function \<^verbatim>\<open>default_n_eval_points\<close> of \<^verbatim>\<open>nengo.utils.builder\<close> is not among the
  source files and is a parameter.
\<close>

definition gen_eval_points ::
  "(nat \<Rightarrow> nat \<Rightarrow> nat) \<Rightarrow> Ensemble \<Rightarrow> ndarray spec \<Rightarrow> rng \<Rightarrow> bool \<Rightarrow> string list
     \<Rightarrow> (error + ndarray \<times> rng) \<times> string list" where
  "gen_eval_points default_n_eval_points ens eval_pts rng scale_eval_points ws =
     (case eval_pts of
        Distribution f \<Rightarrow>
          (let n_points = (case n_eval_points ens of
                             None \<Rightarrow> default_n_eval_points (n_neurons ens) (dimensions ens)
                           | Some n \<Rightarrow> n);
               (pts, rng') = f n_points (Some (dimensions ens)) rng
           in (Inr (if scale_eval_points then scale_array pts (radius ens) else pts, rng'), ws))
      | Literal a \<Rightarrow>
          (case (case n_eval_points ens of
                   None \<Rightarrow> Inr ws
                 | Some n \<Rightarrow>
                     (case shape a of
                        [] \<Rightarrow> Inl IndexError
                      | s0 # _ \<Rightarrow> Inr (if s0 \<noteq> n then ws @ [mismatch_warning] else ws))) of
             Inl e \<Rightarrow> (Inl e, ws)
           | Inr ws' \<Rightarrow>
               if ndim a = 2
               then (Inr (if scale_eval_points then scale_array a (radius ens) else a, rng), ws')
               else (Inl AssertionError, ws')))"

subsection \<open>\<^verbatim>\<open>get_gain_bias\<close>\<close>

definition not_both_message :: "Ensemble \<Rightarrow> string" where
  "not_both_message ens =
     ''gain or bias set for '' @ ens_str ens @
     '', but not both. Solving for one given the other is not implemented yet.''"

definition get_gain_bias ::
  "Ensemble \<Rightarrow> rng \<Rightarrow> error + (vector \<times> vector \<times> vector option \<times> vector option) \<times> rng" where
  "get_gain_bias ens rng =
     (if ens_gain ens \<noteq> None \<and> ens_bias ens \<noteq> None then
        (let (gn, rng1) = sample (the (ens_gain ens)) (n_neurons ens) None rng;
             (bs, rng2) = sample (the (ens_bias ens)) (n_neurons ens) None rng1
         in Inr ((gn, bs, None, None), rng2))
      else if ens_gain ens \<noteq> None \<or> ens_bias ens \<noteq> None then
        Inl (NotImplementedError (not_both_message ens))
      else
        (let (mr, rng1) = sample (ens_max_rates ens) (n_neurons ens) None rng;
             (ic, rng2) = sample (ens_intercepts ens) (n_neurons ens) None rng1;
             (gn, bs) = gain_bias (neuron_type ens) mr ic
         in Inr ((gn, bs, Some mr, Some ic), rng2)))"

subsection \<open>\<^verbatim>\<open>build_ensemble\<close>\<close>

text \<open>
  Lines 113 to 118: the encoders before normalisation. A literal is an \<open>N \<times> D\<close>
  matrix, which \<^verbatim>\<open>npext.array(..., min_dims=2, dtype=np.float64)\<close> copies as it is.
\<close>

definition raw_encoders :: "Ensemble \<Rightarrow> rng \<Rightarrow> matrix \<times> rng" where
  "raw_encoders ens rng =
     (if is_Direct (neuron_type ens) then (identity (dimensions ens), rng)
      else (case ens_encoders ens of
              Distribution f \<Rightarrow>
                sample (Distribution f) (n_neurons ens) (Some (dimensions ens)) rng
            | Literal a \<Rightarrow> (a, rng)))"

text \<open>Lines 124 to 137: the signals and operators of the neurons.\<close>

definition build_neuron_signals :: "Ensemble \<Rightarrow> vector \<Rightarrow> Model \<Rightarrow> Model" where
  "build_neuron_signals ens bs model =
     (if is_Direct (neuron_type ens) then
        (let (n_in, model) =
               alloc (Signal (Vec (zeros (dimensions ens))) (ens_str ens @ ''.neuron_in'') False)
                 model;
             model = set_sig (Neurons (ens_id ens)) ''in'' n_in model;
             model = set_sig (Neurons (ens_id ens)) ''out'' n_in model
         in add_op (Reset n_in) model)
      else
        (let (n_in, model) =
               alloc (Signal (Vec (zeros (n_neurons ens))) (ens_str ens @ ''.neuron_in'') False)
                 model;
             model = set_sig (Neurons (ens_id ens)) ''in'' n_in model;
             (n_out, model) =
               alloc (Signal (Vec (zeros (n_neurons ens))) (ens_str ens @ ''.neuron_out'') False)
                 model;
             model = set_sig (Neurons (ens_id ens)) ''out'' n_out model;
             (bias_sig, model) = alloc (Signal (Vec bs) (ens_str ens @ ''.bias'') True) model;
             model = add_op (Copy bias_sig n_in) model
         in add_ops (build_neurons (neuron_type ens) n_in n_out) model))"

text \<open>
  Lines 145 to 168, after the scaled encoders are known: the encoder signal, the noise,
  the encoding operator, the output signal and the result record. A read of
  \<^verbatim>\<open>model.sig[ens.neurons][...]\<close> raises \<^verbatim>\<open>KeyError\<close> when the role is not there.
\<close>

definition finish_ensemble ::
  "Ensemble \<Rightarrow> ref \<Rightarrow> BuiltEnsemble \<Rightarrow> Model \<Rightarrow> (error + unit) \<times> Model" where
  "finish_ensemble ens sig_in built model =
     (let (enc_sig, model) =
            alloc (Signal (Mat (scaled_encoders built)) (ens_str ens @ ''.scaled_encoders'') True)
              model;
          model = set_sig (Ens (ens_id ens)) ''encoders'' enc_sig model
      in case sig model (Neurons (ens_id ens), ''in'') of
           None \<Rightarrow> (Inl KeyError, model)
         | Some n_in \<Rightarrow>
             (let model = (case noise ens of
                             None \<Rightarrow> model
                           | Some p \<Rightarrow> add_ops (build_process p n_in) model);
                  model = add_op (DotInc enc_sig sig_in n_in (ens_str ens @ '' encoding'')) model
              in case sig model (Neurons (ens_id ens), ''out'') of
                   None \<Rightarrow> (Inl KeyError, model)
                 | Some n_out \<Rightarrow>
                     (let model = set_sig (Ens (ens_id ens)) ''out'' n_out model
                      in (Inr (), model\<lparr>params := (params model)(ens_id ens \<mapsto> built)\<rparr>))))"

definition build_ensemble ::
  "(nat \<Rightarrow> nat \<Rightarrow> nat) \<Rightarrow> Model \<Rightarrow> Ensemble \<Rightarrow> (error + unit) \<times> Model" where
  "build_ensemble default_n_eval_points model ens =
     (let rng = RandomState (seeds model (ens_id ens));
          (r, ws) = gen_eval_points default_n_eval_points ens (ens_eval_points ens) rng True
                      (warnings model);
          model = model\<lparr>warnings := ws\<rparr>
      in case r of
           Inl e \<Rightarrow> (Inl e, model)
         | Inr (pts, rng) \<Rightarrow>
             (let (sig_in, model) =
                    alloc (Signal (Vec (zeros (dimensions ens))) (ens_str ens @ ''.signal'') False)
                      model;
                  model = set_sig (Ens (ens_id ens)) ''in'' sig_in model;
                  model = add_op (Reset sig_in) model;
                  (enc, rng) = raw_encoders ens rng;
                  enc = div_column enc (npext_norm enc)
              in case get_gain_bias ens rng of
                   Inl e \<Rightarrow> (Inl e, model)
                 | Inr ((gn, bs, mr, ic), rng) \<Rightarrow>
                     (let model = build_neuron_signals ens bs model
                      in case (if is_Direct (neuron_type ens) then Inr enc
                               else mul_column enc (map (\<lambda>g. g / radius ens) gn)) of
                           Inl e \<Rightarrow> (Inl e, model)
                         | Inr scaled \<Rightarrow>
                             finish_ensemble ens sig_in
                               \<lparr>eval_points = pts, encoders = enc, intercepts = ic,
                                max_rates = mr, scaled_encoders = scaled, gain = gn,
                                bias = bs\<rparr>
                               model)))"

text \<open>
  Names for three stages of \<open>build_ensemble\<close>, written as they stand in its definition:
  the eval points drawn from the generator derived from the seed (lines 103 to 105),
  the encoders after normalisation (lines 113 to 119), and the scaled encoders (lines
  140 to 143).
\<close>

abbreviation eval_stage ::
  "(nat \<Rightarrow> nat \<Rightarrow> nat) \<Rightarrow> Model \<Rightarrow> Ensemble \<Rightarrow> (error + ndarray \<times> rng) \<times> string list" where
  "eval_stage d m ens \<equiv>
     gen_eval_points d ens (ens_eval_points ens) (RandomState (seeds m (ens_id ens))) True
       (warnings m)"

abbreviation unit_encoders :: "Ensemble \<Rightarrow> rng \<Rightarrow> matrix" where
  "unit_encoders ens rng \<equiv>
     div_column (fst (raw_encoders ens rng)) (npext_norm (fst (raw_encoders ens rng)))"

abbreviation scale_stage :: "Ensemble \<Rightarrow> rng \<Rightarrow> vector \<Rightarrow> error + matrix" where
  "scale_stage ens rng gn \<equiv>
     (if is_Direct (neuron_type ens) then Inr (unit_encoders ens rng)
      else mul_column (unit_encoders ens rng) (map (\<lambda>g. g / radius ens) gn))"

text \<open>
  Modelled from the spec: the \<^verbatim>\<open>Ensemble\<close> class, which validates the parameters of an
  ensemble, is not among the source files. The spec's data model gives the shapes:
  "Encoders: array [N \<times> D]" and "Gain, Bias: arrays of length N". \<open>declared_shapes\<close>
  says that the arrays the build obtains for an ensemble that is not pass-through, with
  the generator as the eval-point stage left it, have these shapes. A pass-through
  ensemble uses the \<open>D \<times> D\<close> identity and neither gain nor bias.
\<close>

definition declared_shapes :: "Ensemble \<Rightarrow> rng \<Rightarrow> bool" where
  "declared_shapes ens rng =
     (is_Direct (neuron_type ens) \<or>
      length (fst (raw_encoders ens rng)) = n_neurons ens \<and>
      (\<forall>row \<in> set (fst (raw_encoders ens rng)). length row = dimensions ens) \<and>
      (case get_gain_bias ens (snd (raw_encoders ens rng)) of
         Inl e \<Rightarrow> True
       | Inr r \<Rightarrow>
           length (fst (fst r)) = n_neurons ens \<and>
           length (fst (snd (fst r))) = n_neurons ens))"

subsection \<open>Concrete inputs\<close>

text \<open>
  Small inputs on which the definitions are evaluated: a stand-in for
  \<^verbatim>\<open>default_n_eval_points\<close>, a seed table, a distribution that draws \<open>n\<close> copies of the
  state of the generator and advances it, a rate neuron type, the pass-through type, an
  empty model, and an ensemble of two neurons in two dimensions whose literal eval-point
  array has three rows against an override of two. The other ensembles differ from it
  in the fields named; \<open>grid_dist\<close> is a distribution of eval points that draws an
  \<open>n \<times> d\<close> array filled with the state of the generator and advances it.
\<close>

definition example_default :: "nat \<Rightarrow> nat \<Rightarrow> nat" where
  "example_default n d = max 750 (2 * n)"

definition example_seeds :: "nat \<Rightarrow> nat" where
  "example_seeds k = 7 + k"

definition counter_dist :: "vector spec" where
  "counter_dist =
     Distribution (\<lambda>n d g. case g of RngState s \<Rightarrow> (replicate n (real s), RngState (Suc s)))"

definition rate_neurons :: neuron_type where
  "rate_neurons =
     NeuronType False (\<lambda>mr ic. (mr, map (\<lambda>c. - c) ic)) (\<lambda>i j. [SubOp ''SimNeurons'' [i, j]])"

definition direct_neurons :: neuron_type where
  "direct_neurons = NeuronType True (\<lambda>mr ic. (mr, ic)) (\<lambda>i j. [])"

definition empty_model :: Model where
  "empty_model =
     \<lparr>seeds = example_seeds, sig = Map.empty, operators = [], params = Map.empty,
      signals = [], warnings = []\<rparr>"

definition example_ens :: Ensemble where
  "example_ens =
     \<lparr>ens_id = 0, ens_str = ''<Ensemble A>'', dimensions = 2, n_neurons = 2, radius = 2,
      neuron_type = rate_neurons,
      ens_eval_points = Literal (NDArray [3, 2] [1, 0, 0, 1, 1, 1]),
      n_eval_points = Some 2,
      ens_encoders = Literal [[0, 2], [1, 0]],
      ens_gain = Some (Literal [2, 4]),
      ens_bias = Some counter_dist,
      ens_max_rates = Literal [100, 200],
      ens_intercepts = Literal [0, 1 / 2],
      noise = Some (Process (\<lambda>i. [SubOp ''SimNoise'' [i]]))\<rparr>"

definition direct_ens :: Ensemble where
  "direct_ens = example_ens\<lparr>neuron_type := direct_neurons\<rparr>"

definition other_ens :: Ensemble where
  "other_ens = example_ens\<lparr>ens_id := 1, ens_str := ''<Ensemble B>'',
                            neuron_type := direct_neurons\<rparr>"

definition gain_only_ens :: Ensemble where
  "gain_only_ens = example_ens\<lparr>ens_bias := None\<rparr>"

definition bias_only_ens :: Ensemble where
  "bias_only_ens = example_ens\<lparr>ens_gain := None\<rparr>"

definition cube_ens :: Ensemble where
  "cube_ens = example_ens\<lparr>ens_eval_points := Literal (NDArray [1, 1, 1] [0])\<rparr>"

definition grid_dist :: "ndarray spec" where
  "grid_dist =
     Distribution
       (\<lambda>n d g. case g of
          RngState s \<Rightarrow>
            (NDArray [n, case d of None \<Rightarrow> 1 | Some k \<Rightarrow> k]
               (replicate (n * (case d of None \<Rightarrow> 1 | Some k \<Rightarrow> k)) (real s)),
             RngState (Suc s)))"

definition gain_only_dist_ens :: Ensemble where
  "gain_only_dist_ens = gain_only_ens\<lparr>ens_eval_points := grid_dist\<rparr>"

section \<open>Properties\<close>

subsection \<open>Normalisation of rows\<close>

lemma normalise_rows:
  "div_column E (npext_norm E) = map (\<lambda>row. map (\<lambda>x. x / euclid_norm row) row) E"
  by (simp add: div_column_def npext_norm_def zip_map2 zip_same_conv_map comp_def)

lemma sum_squares_nonneg: "0 \<le> sum_list (map (\<lambda>x::real. x\<^sup>2) row)"
  by (induction row) auto

lemma sum_squares_zero_iff:
  "sum_list (map (\<lambda>x::real. x\<^sup>2) row) = 0 \<longleftrightarrow> (\<forall>x \<in> set row. x = 0)"
proof (induction row)
  case Nil
  then show ?case by simp
next
  case (Cons a row)
  have "a\<^sup>2 + sum_list (map (\<lambda>x. x\<^sup>2) row) = 0 \<longleftrightarrow> a\<^sup>2 = 0 \<and> sum_list (map (\<lambda>x. x\<^sup>2) row) = 0"
    using sum_squares_nonneg [of row] by (intro add_nonneg_eq_0_iff) auto
  with Cons show ?case by simp
qed

lemma euclid_norm_zero_iff: "euclid_norm row = 0 \<longleftrightarrow> (\<forall>x \<in> set row. x = 0)"
  by (simp add: euclid_norm_def sum_squares_zero_iff)

lemma sum_squares_divide:
  "sum_list (map (\<lambda>x. (x / c)\<^sup>2) row) = sum_list (map (\<lambda>x::real. x\<^sup>2) row) / c\<^sup>2"
  by (induction row) (auto simp: power_divide add_divide_distrib)

lemma euclid_norm_normalised:
  assumes "euclid_norm row \<noteq> 0"
  shows "euclid_norm (map (\<lambda>x. x / euclid_norm row) row) = 1"
proof -
  let ?s = "sum_list (map (\<lambda>x. x\<^sup>2) row)"
  have s: "0 \<le> ?s" by (rule sum_squares_nonneg)
  have pos: "?s \<noteq> 0" using assms by (simp add: euclid_norm_def)
  have "euclid_norm (map (\<lambda>x. x / sqrt ?s) row) = sqrt (?s / (sqrt ?s)\<^sup>2)"
    by (simp add: euclid_norm_def comp_def sum_squares_divide)
  also have "\<dots> = sqrt (?s / ?s)" using s by simp
  also have "\<dots> = 1" using pos by simp
  finally show ?thesis by (simp add: euclid_norm_def)
qed

lemma identity_row_norm:
  assumes "i < n"
  shows "euclid_norm (map (\<lambda>j. if i = j then 1 else 0) [0..<n]) = 1"
proof -
  have f: "(\<lambda>j. (if i = j then (1::real) else 0)\<^sup>2) = (\<lambda>j. if j = i then 1 else 0)"
    by (rule ext) simp
  have "sum_list (map (\<lambda>x::real. x\<^sup>2) (map (\<lambda>j. if i = j then 1 else 0) [0..<n]))
        = sum_list (map (\<lambda>j. if j = i then 1 else 0) [0..<n])"
    unfolding map_map comp_def f ..
  also have "\<dots> = (\<Sum>j\<in>{0..<n}. if j = i then 1 else 0)"
    by (simp only: interv_sum_list_conv_sum_set_nat set_upt)
  also have "\<dots> = 1" using assms by simp
  finally show ?thesis by (simp only: euclid_norm_def real_sqrt_one)
qed

lemma normalise_identity:
  "div_column (identity n) (npext_norm (identity n)) = identity n"
  by (simp add: normalise_rows identity_def identity_row_norm)

subsection \<open>The outcomes of \<^verbatim>\<open>build_ensemble\<close>\<close>

text \<open>
  A build ends in one of four ways: the eval-point stage raises; \<^verbatim>\<open>get_gain_bias\<close>
  raises; the scaling of the encoders raises; or it returns. The lemmas give the
  outcome and the state left behind in each case.
\<close>

lemmas build_defs = build_ensemble_def finish_ensemble_def build_neuron_signals_def
  alloc_def set_sig_def add_op_def add_ops_def Let_def split_beta

lemma gen_eval_points_fst_warnings:
  "fst (gen_eval_points d ens e rng sc ws) = fst (gen_eval_points d ens e rng sc ws')"
  by (simp add: gen_eval_points_def split_beta Let_def
        split: spec.splits option.splits list.splits)

lemma gen_eval_points_literal:
  "gen_eval_points d ens (Literal a) rng sc ws =
     (if n_eval_points ens \<noteq> None \<and> shape a = [] then (Inl IndexError, ws)
      else (if ndim a = 2 then Inr (if sc then scale_array a (radius ens) else a, rng)
            else Inl AssertionError,
            if n_eval_points ens \<noteq> None \<and> Some (hd (shape a)) \<noteq> n_eval_points ens
            then ws @ [mismatch_warning] else ws))"
  by (auto simp add: gen_eval_points_def split: option.splits list.splits)

lemma gen_eval_points_error:
  "gen_eval_points d ens e rng sc ws = (Inl err, ws') \<Longrightarrow>
   err = AssertionError \<or> err = IndexError"
  by (auto simp add: gen_eval_points_def Let_def split_beta
        split: spec.splits option.splits list.splits if_splits)

lemma gen_eval_points_rng:
  "gen_eval_points d ens e rng sc ws = (Inr (pts, rng1), ws') \<Longrightarrow>
   rng1 = (case e of
             Literal a \<Rightarrow> rng
           | Distribution f \<Rightarrow>
               snd (f (case n_eval_points ens of
                         None \<Rightarrow> d (n_neurons ens) (dimensions ens)
                       | Some n \<Rightarrow> n)
                      (Some (dimensions ens)) rng))"
  by (auto simp add: gen_eval_points_def Let_def split_beta
        split: spec.splits option.splits list.splits if_splits)

lemma get_gain_bias_one:
  "(ens_gain ens = None) \<noteq> (ens_bias ens = None) \<Longrightarrow>
   get_gain_bias ens rng = Inl (NotImplementedError (not_both_message ens))"
  by (auto simp add: get_gain_bias_def)

lemma get_gain_bias_error_config:
  "get_gain_bias ens rng = Inl e \<Longrightarrow> (ens_gain ens = None) \<noteq> (ens_bias ens = None)"
  by (auto simp add: get_gain_bias_def split_beta split: if_splits)

lemma scale_error:
  "(if dr then Inr E else mul_column E c) = Inl e \<Longrightarrow> e = ValueError"
  by (auto simp add: mul_column_def split: if_splits)

lemma build_eval_fail:
  "eval_stage d m ens = (Inl e, ws) \<Longrightarrow>
   build_ensemble d m ens = (Inl e, m\<lparr>warnings := ws\<rparr>)"
  by (simp add: build_ensemble_def)

lemma build_gain_fail:
  "eval_stage d m ens = (Inr (pts, rng1), ws) \<Longrightarrow>
   get_gain_bias ens (snd (raw_encoders ens rng1)) = Inl e \<Longrightarrow>
   build_ensemble d m ens =
     (Inl e,
      m\<lparr>warnings := ws,
        signals := signals m @
          [Signal (Vec (zeros (dimensions ens))) (ens_str ens @ ''.signal'') False],
        sig := (sig m)((Ens (ens_id ens), ''in'') \<mapsto> length (signals m)),
        operators := operators m @ [Reset (length (signals m))]\<rparr>)"
  by (simp add: build_defs)

lemma build_scale_fail:
  assumes "eval_stage d m ens = (Inr (pts, rng1), ws)"
    and "get_gain_bias ens (snd (raw_encoders ens rng1)) = Inr ((gn, bs, mr, ic), rng3)"
    and "scale_stage ens rng1 gn = Inl e"
  shows "fst (build_ensemble d m ens) = Inl e"
  using assms by (simp add: build_ensemble_def Let_def split_beta split: if_splits)

lemma build_ok:
  assumes "eval_stage d m ens = (Inr (pts, rng1), ws)"
    and "get_gain_bias ens (snd (raw_encoders ens rng1)) = Inr ((gn, bs, mr, ic), rng3)"
    and "scale_stage ens rng1 gn = Inr scaled"
  shows "fst (build_ensemble d m ens) = Inr ()"
    and "params (snd (build_ensemble d m ens)) =
           (params m)(ens_id ens \<mapsto>
             \<lparr>eval_points = pts, encoders = unit_encoders ens rng1, intercepts = ic,
              max_rates = mr, scaled_encoders = scaled, gain = gn, bias = bs\<rparr>)"
    and "warnings (snd (build_ensemble d m ens)) = ws"
    and "seeds (snd (build_ensemble d m ens)) = seeds m"
    and "sig (snd (build_ensemble d m ens)) (Neurons (ens_id ens), ''in'') =
           Some (Suc (length (signals m)))"
    and "sig (snd (build_ensemble d m ens)) (Neurons (ens_id ens), ''out'') =
           Some (if is_Direct (neuron_type ens) then Suc (length (signals m))
                 else Suc (Suc (length (signals m))))"
  using assms by (simp_all add: build_defs split: if_splits option.splits)

lemma build_ok_signals:
  assumes "eval_stage d m ens = (Inr (pts, rng1), ws)"
    and "get_gain_bias ens (snd (raw_encoders ens rng1)) = Inr ((gn, bs, mr, ic), rng3)"
    and "scale_stage ens rng1 gn = Inr scaled"
    and "r = (if is_Direct (neuron_type ens) then length (signals m) + 2
              else length (signals m) + 4)"
  shows "sig (snd (build_ensemble d m ens)) (Ens (ens_id ens), ''encoders'') = Some r"
    and "r < length (signals (snd (build_ensemble d m ens)))"
    and "signals (snd (build_ensemble d m ens)) ! r =
           Signal (Mat scaled) (ens_str ens @ ''.scaled_encoders'') True"
    and "signals (snd (build_ensemble d m ens)) ! Suc (length (signals m)) =
           Signal (Vec (zeros (if is_Direct (neuron_type ens) then dimensions ens
                               else n_neurons ens)))
             (ens_str ens @ ''.neuron_in'') False"
  using assms by (simp_all add: build_defs nth_append split: if_splits option.splits)

lemma build_success_cases:
  assumes "fst (build_ensemble d m ens) = Inr ()"
  obtains pts rng1 ws gn bs mr ic rng3 scaled where
    "eval_stage d m ens = (Inr (pts, rng1), ws)"
    "get_gain_bias ens (snd (raw_encoders ens rng1)) = Inr ((gn, bs, mr, ic), rng3)"
    "scale_stage ens rng1 gn = Inr scaled"
proof -
  obtain r ws where g: "eval_stage d m ens = (r, ws)"
    by (cases "eval_stage d m ens")
  show thesis
  proof (cases r)
    case (Inl e)
    with g assms build_eval_fail [of d ens m e ws] show thesis by simp
  next
    case (Inr p)
    obtain pts rng1 where p: "p = (pts, rng1)" by (cases p)
    note g' = g [unfolded Inr p]
    show thesis
    proof (cases "get_gain_bias ens (snd (raw_encoders ens rng1))")
      case (Inl e)
      with assms build_gain_fail [OF g' Inl] show thesis by simp
    next
      case b: (Inr q)
      obtain gn bs mr ic rng3 where q: "q = ((gn, bs, mr, ic), rng3)" by (cases q) auto
      note b' = b [unfolded q]
      show thesis
      proof (cases "scale_stage ens rng1 gn")
        case (Inl e)
        with assms build_scale_fail [OF g' b' Inl] show thesis by simp
      next
        case s: (Inr scaled)
        show thesis by (rule that [OF g' b' s])
      qed
    qed
  qed
qed

lemma build_frame:
  "seeds (snd (build_ensemble d m ens)) = seeds m"
  "k \<noteq> ens_id ens \<Longrightarrow> params (snd (build_ensemble d m ens)) k = params m k"
  by (simp_all add: build_defs split: sum.splits option.splits if_splits)

subsection \<open>The builder on the concrete inputs\<close>

lemmas example_defs = example_ens_def direct_ens_def other_ens_def gain_only_ens_def
  bias_only_ens_def cube_ens_def gain_only_dist_ens_def grid_dist_def empty_model_def
  example_default_def
  example_seeds_def counter_dist_def rate_neurons_def direct_neurons_def

lemmas stage_defs = gen_eval_points_def get_gain_bias_def raw_encoders_def mul_column_def
  div_column_def npext_norm_def euclid_norm_def scale_array_def ndim_def RandomState_def
  identity_def zeros_def not_both_message_def mismatch_warning_def

lemma example_build:
  "build_ensemble example_default empty_model example_ens =
     (Inr (),
      \<lparr>seeds = example_seeds,
       sig = [(Ens 0, ''in'') \<mapsto> 0, (Neurons 0, ''in'') \<mapsto> 1, (Neurons 0, ''out'') \<mapsto> 2,
              (Ens 0, ''encoders'') \<mapsto> 4, (Ens 0, ''out'') \<mapsto> 2],
       operators = [Reset 0, Copy 3 1, SubOp ''SimNeurons'' [1, 2], SubOp ''SimNoise'' [1],
                    DotInc 4 0 1 ''<Ensemble A> encoding''],
       params = [0 \<mapsto> \<lparr>eval_points = NDArray [3, 2] [2, 0, 0, 2, 2, 2],
                          encoders = [[0, 1], [1, 0]], intercepts = None, max_rates = None,
                          scaled_encoders = [[0, 1], [2, 0]], gain = [2, 4], bias = [7, 7]\<rparr>],
       signals = [Signal (Vec [0, 0]) ''<Ensemble A>.signal'' False,
                  Signal (Vec [0, 0]) ''<Ensemble A>.neuron_in'' False,
                  Signal (Vec [0, 0]) ''<Ensemble A>.neuron_out'' False,
                  Signal (Vec [7, 7]) ''<Ensemble A>.bias'' True,
                  Signal (Mat [[0, 1], [2, 0]]) ''<Ensemble A>.scaled_encoders'' True],
       warnings = [mismatch_warning]\<rparr>)"
  by (simp add: build_defs example_defs stage_defs eval_nat_numeral)

lemma direct_build:
  "build_ensemble example_default empty_model direct_ens =
     (Inr (),
      \<lparr>seeds = example_seeds,
       sig = [(Ens 0, ''in'') \<mapsto> 0, (Neurons 0, ''in'') \<mapsto> 1, (Neurons 0, ''out'') \<mapsto> 1,
              (Ens 0, ''encoders'') \<mapsto> 2, (Ens 0, ''out'') \<mapsto> 1],
       operators = [Reset 0, Reset 1, SubOp ''SimNoise'' [1],
                    DotInc 2 0 1 ''<Ensemble A> encoding''],
       params = [0 \<mapsto> \<lparr>eval_points = NDArray [3, 2] [2, 0, 0, 2, 2, 2],
                          encoders = [[1, 0], [0, 1]], intercepts = None, max_rates = None,
                          scaled_encoders = [[1, 0], [0, 1]], gain = [2, 4], bias = [7, 7]\<rparr>],
       signals = [Signal (Vec [0, 0]) ''<Ensemble A>.signal'' False,
                  Signal (Vec [0, 0]) ''<Ensemble A>.neuron_in'' False,
                  Signal (Mat [[1, 0], [0, 1]]) ''<Ensemble A>.scaled_encoders'' True],
       warnings = [mismatch_warning]\<rparr>)"
  by (simp add: build_defs example_defs stage_defs eval_nat_numeral)

lemma other_build:
  "build_ensemble example_default empty_model other_ens =
     (Inr (),
      \<lparr>seeds = example_seeds,
       sig = [(Ens 1, ''in'') \<mapsto> 0, (Neurons 1, ''in'') \<mapsto> 1, (Neurons 1, ''out'') \<mapsto> 1,
              (Ens 1, ''encoders'') \<mapsto> 2, (Ens 1, ''out'') \<mapsto> 1],
       operators = [Reset 0, Reset 1, SubOp ''SimNoise'' [1],
                    DotInc 2 0 1 ''<Ensemble B> encoding''],
       params = [1 \<mapsto> \<lparr>eval_points = NDArray [3, 2] [2, 0, 0, 2, 2, 2],
                          encoders = [[1, 0], [0, 1]], intercepts = None, max_rates = None,
                          scaled_encoders = [[1, 0], [0, 1]], gain = [2, 4], bias = [8, 8]\<rparr>],
       signals = [Signal (Vec [0, 0]) ''<Ensemble B>.signal'' False,
                  Signal (Vec [0, 0]) ''<Ensemble B>.neuron_in'' False,
                  Signal (Mat [[1, 0], [0, 1]]) ''<Ensemble B>.scaled_encoders'' True],
       warnings = [mismatch_warning]\<rparr>)"
  by (simp add: build_defs example_defs stage_defs eval_nat_numeral)

lemma example_build_after_other:
  "fst (build_ensemble example_default
          (snd (build_ensemble example_default empty_model other_ens)) example_ens) = Inr ()"
  "params (snd (build_ensemble example_default
                  (snd (build_ensemble example_default empty_model other_ens)) example_ens)) 0 =
     Some \<lparr>eval_points = NDArray [3, 2] [2, 0, 0, 2, 2, 2],
           encoders = [[0, 1], [1, 0]], intercepts = None, max_rates = None,
           scaled_encoders = [[0, 1], [2, 0]], gain = [2, 4], bias = [7, 7]\<rparr>"
  unfolding other_build snd_conv
  by (simp_all add: build_defs example_ens_def example_default_def example_seeds_def
        counter_dist_def rate_neurons_def stage_defs eval_nat_numeral)

lemma gain_only_build:
  "build_ensemble example_default empty_model gain_only_ens =
     (Inl (NotImplementedError
             ''gain or bias set for <Ensemble A>, but not both. Solving for one given the other is not implemented yet.''),
      \<lparr>seeds = example_seeds,
       sig = [(Ens 0, ''in'') \<mapsto> 0],
       operators = [Reset 0],
       params = Map.empty,
       signals = [Signal (Vec [0, 0]) ''<Ensemble A>.signal'' False],
       warnings = [mismatch_warning]\<rparr>)"
  by (simp add: build_defs example_defs stage_defs eval_nat_numeral)

lemma cube_build:
  "build_ensemble example_default empty_model cube_ens =
     (Inl AssertionError, empty_model\<lparr>warnings := [mismatch_warning]\<rparr>)"
  by (simp add: build_defs example_defs stage_defs eval_nat_numeral)

lemma gain_only_dist_build:
  "build_ensemble example_default empty_model gain_only_dist_ens =
     (Inl (NotImplementedError
             ''gain or bias set for <Ensemble A>, but not both. Solving for one given the other is not implemented yet.''),
      \<lparr>seeds = example_seeds,
       sig = [(Ens 0, ''in'') \<mapsto> 0],
       operators = [Reset 0],
       params = Map.empty,
       signals = [Signal (Vec [0, 0]) ''<Ensemble A>.signal'' False],
       warnings = []\<rparr>)"
  by (simp add: build_defs example_defs stage_defs eval_nat_numeral)

lemma gain_only_dist_eval_stage:
  "eval_stage example_default empty_model gain_only_dist_ens =
     (Inr (NDArray [2, 2] [14, 14, 14, 14], RngState 8), [])"
  by (simp add: example_defs stage_defs eval_nat_numeral)

lemma gain_only_eval_stage:
  "eval_stage example_default empty_model gain_only_ens =
     (Inr (NDArray [3, 2] [2, 0, 0, 2, 2, 2], RngState 7), [mismatch_warning])"
  by (simp add: example_defs stage_defs eval_nat_numeral)

subsection \<open>Determinism\<close>

text \<open>
  Claim C1. Two builds of the same ensemble spec in any two build states that give
  the ensemble the same seed end the same way, and when they succeed the records they
  store have the same \<^verbatim>\<open>eval_points\<close>, \<^verbatim>\<open>encoders\<close>, \<^verbatim>\<open>gain\<close> and \<^verbatim>\<open>bias\<close>: nothing
  else of the state (signals, operators, results and warnings of ensembles built
  before) is read. The build of another ensemble leaves the seed table and the record
  of this ensemble as they were, so neither a build before nor a build after changes
  the four arrays. Equality is equality of the arrays' values in the model.
\<close>

theorem build_is_deterministic:
  assumes "seeds m1 (ens_id ens) = seeds m2 (ens_id ens)"
    and "ens_id other \<noteq> ens_id ens"
  shows "fst (build_ensemble d m1 ens) = fst (build_ensemble d m2 ens) \<and>
         (fst (build_ensemble d m1 ens) = Inr () \<longrightarrow>
            (\<exists>b1 b2. params (snd (build_ensemble d m1 ens)) (ens_id ens) = Some b1 \<and>
                     params (snd (build_ensemble d m2 ens)) (ens_id ens) = Some b2 \<and>
                     eval_points b1 = eval_points b2 \<and> encoders b1 = encoders b2 \<and>
                     gain b1 = gain b2 \<and> bias b1 = bias b2)) \<and>
         seeds (snd (build_ensemble d m1 other)) = seeds m1 \<and>
         params (snd (build_ensemble d m1 other)) (ens_id ens) = params m1 (ens_id ens)"
proof -
  let ?rng = "RandomState (seeds m1 (ens_id ens))"
  obtain r ws1 where g1: "eval_stage d m1 ens = (r, ws1)"
    by (cases "eval_stage d m1 ens")
  obtain r' ws2 where g2': "eval_stage d m2 ens = (r', ws2)"
    by (cases "eval_stage d m2 ens")
  have "r' = r"
    using g1 g2' assms(1)
      gen_eval_points_fst_warnings [of d ens "ens_eval_points ens" ?rng True
        "warnings m1" "warnings m2"]
    by simp
  with g2' have g2: "eval_stage d m2 ens = (r, ws2)" by simp
  have same:
    "fst (build_ensemble d m1 ens) = fst (build_ensemble d m2 ens) \<and>
     (fst (build_ensemble d m1 ens) = Inr () \<longrightarrow>
        (\<exists>b1 b2. params (snd (build_ensemble d m1 ens)) (ens_id ens) = Some b1 \<and>
                 params (snd (build_ensemble d m2 ens)) (ens_id ens) = Some b2 \<and>
                 eval_points b1 = eval_points b2 \<and> encoders b1 = encoders b2 \<and>
                 gain b1 = gain b2 \<and> bias b1 = bias b2))"
  proof (cases r)
    case (Inl e)
    with build_eval_fail [of d ens m1 e ws1] build_eval_fail [of d ens m2 e ws2] g1 g2
    show ?thesis by simp
  next
    case (Inr p)
    obtain pts rng1 where p: "p = (pts, rng1)" by (cases p)
    note h1 = g1 [unfolded Inr p] and h2 = g2 [unfolded Inr p]
    show ?thesis
    proof (cases "get_gain_bias ens (snd (raw_encoders ens rng1))")
      case (Inl e)
      with build_gain_fail [OF h1 Inl] build_gain_fail [OF h2 Inl] show ?thesis by simp
    next
      case b: (Inr q)
      obtain gn bs mr ic rng3 where q: "q = ((gn, bs, mr, ic), rng3)" by (cases q) auto
      note b' = b [unfolded q]
      show ?thesis
      proof (cases "scale_stage ens rng1 gn")
        case (Inl e)
        with build_scale_fail [OF h1 b' Inl] build_scale_fail [OF h2 b' Inl]
        show ?thesis by simp
      next
        case s: (Inr scaled)
        from build_ok(1,2) [OF h1 b' s] build_ok(1,2) [OF h2 b' s] show ?thesis by simp
      qed
    qed
  qed
  with build_frame(1) [of d m1 other] build_frame(2) [of "ens_id ens" other d m1] assms(2)
  show ?thesis by simp
qed

theorem build_is_deterministic_witness:
  "seeds empty_model (ens_id example_ens) =
     seeds (snd (build_ensemble example_default empty_model other_ens)) (ens_id example_ens) \<and>
   ens_id other_ens \<noteq> ens_id example_ens \<and>
   fst (build_ensemble example_default empty_model example_ens) = Inr () \<and>
   fst (build_ensemble example_default
          (snd (build_ensemble example_default empty_model other_ens)) example_ens) = Inr () \<and>
   params (snd (build_ensemble example_default
                  (snd (build_ensemble example_default empty_model other_ens)) example_ens)) 0 =
     params (snd (build_ensemble example_default empty_model example_ens)) 0 \<and>
   params (snd (build_ensemble example_default empty_model other_ens)) 0 = None"
proof -
  let ?m2 = "snd (build_ensemble example_default empty_model other_ens)"
  have h1: "seeds empty_model (ens_id example_ens) = seeds ?m2 (ens_id example_ens)"
    by (simp add: other_build) (simp add: empty_model_def)
  have h2: "ens_id other_ens \<noteq> ens_id example_ens"
    by (simp add: example_ens_def other_ens_def)
  have p: "params ?m2 0 = None" by (simp add: other_build)
  have q: "params (snd (build_ensemble example_default empty_model example_ens)) 0 =
             params (snd (build_ensemble example_default ?m2 example_ens)) 0"
    by (simp add: example_build_after_other(2)) (simp add: example_build)
  show ?thesis
    using build_is_deterministic [OF h1 h2, of example_default] h1 h2 p q
    by (simp add: example_build_after_other(1))
qed

subsection \<open>The pass-through neuron type\<close>

text \<open>
  Claim C2. After a successful build of an ensemble whose neuron type is \<^verbatim>\<open>Direct\<close>,
  the roles \<^verbatim>\<open>'in'\<close> and \<^verbatim>\<open>'out'\<close> of \<^verbatim>\<open>model.sig[ens.neurons]\<close> hold one and the same
  reference, that of the signal \<^verbatim>\<open>neuron_in\<close> of dimension \<open>D\<close> allocated by this build,
  and the record stores the \<open>D \<times> D\<close> identity matrix both as \<^verbatim>\<open>encoders\<close> and as
  \<^verbatim>\<open>scaled_encoders\<close>. (The code does divide the identity by its row norms; they are
  all 1.)
\<close>

theorem direct_build_aliases_neuron_signals:
  assumes "is_Direct (neuron_type ens)"
    and "build_ensemble d m ens = (Inr (), m')"
  shows "sig m' (Neurons (ens_id ens), ''in'') = Some (Suc (length (signals m))) \<and>
         sig m' (Neurons (ens_id ens), ''out'') = Some (Suc (length (signals m))) \<and>
         signals m' ! Suc (length (signals m)) =
           Signal (Vec (zeros (dimensions ens))) (ens_str ens @ ''.neuron_in'') False \<and>
         (\<exists>b. params m' (ens_id ens) = Some b \<and>
              encoders b = identity (dimensions ens) \<and>
              scaled_encoders b = identity (dimensions ens))"
proof -
  from assms(2) have ok: "fst (build_ensemble d m ens) = Inr ()"
    and m': "m' = snd (build_ensemble d m ens)" by simp_all
  from ok obtain pts rng1 ws gn bs mr ic rng3 scaled where
    g: "eval_stage d m ens = (Inr (pts, rng1), ws)"
    and b: "get_gain_bias ens (snd (raw_encoders ens rng1)) = Inr ((gn, bs, mr, ic), rng3)"
    and s: "scale_stage ens rng1 gn = Inr scaled"
    by (rule build_success_cases)
  have raw: "fst (raw_encoders ens rng1) = identity (dimensions ens)"
    using assms(1) by (simp add: raw_encoders_def)
  have sc: "scaled = identity (dimensions ens)"
    using s assms(1) by (simp add: raw normalise_identity)
  show ?thesis
    using assms(1) build_ok(2,5,6) [OF g b s] build_ok_signals(4) [OF g b s refl]
    by (simp add: m' raw sc normalise_identity)
qed

theorem direct_build_aliases_neuron_signals_witness:
  "is_Direct (neuron_type direct_ens) \<and>
   fst (build_ensemble example_default empty_model direct_ens) = Inr () \<and>
   sig (snd (build_ensemble example_default empty_model direct_ens)) (Neurons 0, ''in'') =
     Some 1 \<and>
   sig (snd (build_ensemble example_default empty_model direct_ens)) (Neurons 0, ''out'') =
     Some 1 \<and>
   map_option encoders (params (snd (build_ensemble example_default empty_model direct_ens)) 0) =
     Some [[1, 0], [0, 1]] \<and>
   map_option scaled_encoders
     (params (snd (build_ensemble example_default empty_model direct_ens)) 0) =
     Some [[1, 0], [0, 1]]"
proof -
  have h1: "is_Direct (neuron_type direct_ens)"
    by (simp add: direct_ens_def direct_neurons_def)
  have h2: "build_ensemble example_default empty_model direct_ens =
              (Inr (), snd (build_ensemble example_default empty_model direct_ens))"
    by (simp add: direct_build)
  show ?thesis
    using direct_build_aliases_neuron_signals [OF h1 h2] h1
    by (simp add: direct_build)
qed

subsection \<open>\<^verbatim>\<open>get_gain_bias\<close>\<close>

text \<open>
  Claim C3, as amended. When exactly one of gain and bias is specified,
  \<^verbatim>\<open>get_gain_bias\<close> raises \<^verbatim>\<open>NotImplementedError\<close> at once, whatever the generator and the
  other specifications are, and nothing is sampled. The message names the ensemble and
  says that gain or bias was set but not both; it is the same text whichever of the two
  was set.
\<close>

theorem get_gain_bias_exactly_one:
  assumes "(ens_gain ens = None) \<noteq> (ens_bias ens = None)"
  shows "get_gain_bias ens rng =
           Inl (NotImplementedError
                  (''gain or bias set for '' @ ens_str ens @
                   '', but not both. Solving for one given the other is not implemented yet.''))"
  using assms by (auto simp add: get_gain_bias_def not_both_message_def)

theorem get_gain_bias_exactly_one_witness:
  "(ens_gain gain_only_ens = None) \<noteq> (ens_bias gain_only_ens = None) \<and>
   get_gain_bias gain_only_ens (RngState 5) =
     Inl (NotImplementedError
            ''gain or bias set for <Ensemble A>, but not both. Solving for one given the other is not implemented yet.'')"
proof -
  have h: "(ens_gain gain_only_ens = None) \<noteq> (ens_bias gain_only_ens = None)"
    by (simp add: gain_only_ens_def example_ens_def)
  show ?thesis
    using get_gain_bias_exactly_one [OF h, of "RngState 5"] h
    by (simp add: gain_only_ens_def example_ens_def)
qed

text \<open>
  Claim C3 as stated asks that the message identify which of gain and bias was set
  without the other. An ensemble with only the gain and the same ensemble with only
  the bias raise the same error with the same message.
\<close>

theorem message_same_for_gain_only_and_bias_only:
  "ens_gain gain_only_ens \<noteq> None \<and> ens_bias gain_only_ens = None \<and>
   ens_gain bias_only_ens = None \<and> ens_bias bias_only_ens \<noteq> None \<and>
   get_gain_bias gain_only_ens (RngState 5) = get_gain_bias bias_only_ens (RngState 5)"
  by (simp add: gain_only_ens_def bias_only_ens_def example_ens_def get_gain_bias_def
        not_both_message_def)

text \<open>
  Claim C9. When both gain and bias are specified, \<^verbatim>\<open>get_gain_bias\<close> samples the gain and
  then the bias through \<^verbatim>\<open>sample\<close>, the bias with the generator as the gain's draw left
  it, and returns \<^verbatim>\<open>max_rates\<close> and \<^verbatim>\<open>intercepts\<close> as \<^verbatim>\<open>None\<close>: nothing is derived back
  from gain and bias, and the neuron type's \<^verbatim>\<open>gain_bias\<close> is not consulted.
\<close>

theorem get_gain_bias_both_given:
  assumes "ens_gain ens = Some g" and "ens_bias ens = Some b"
  shows "get_gain_bias ens rng =
           Inr ((fst (sample g (n_neurons ens) None rng),
                 fst (sample b (n_neurons ens) None (snd (sample g (n_neurons ens) None rng))),
                 None, None),
                snd (sample b (n_neurons ens) None (snd (sample g (n_neurons ens) None rng))))"
  using assms by (simp add: get_gain_bias_def split_beta)

theorem get_gain_bias_both_given_witness:
  "ens_gain example_ens = Some (Literal [2, 4]) \<and> ens_bias example_ens = Some counter_dist \<and>
   get_gain_bias example_ens (RngState 5) = Inr (([2, 4], [5, 5], None, None), RngState 6)"
proof -
  have g: "ens_gain example_ens = Some (Literal [2, 4])" by (simp add: example_ens_def)
  have b: "ens_bias example_ens = Some counter_dist" by (simp add: example_ens_def)
  have n: "n_neurons example_ens = Suc (Suc 0)" by (simp add: example_ens_def)
  show ?thesis
    using get_gain_bias_both_given [OF g b, of "RngState 5"] g b
    by (simp add: n counter_dist_def)
qed

subsection \<open>Encoders\<close>

text \<open>
  Claim C4. For an ensemble whose neuron type is not \<^verbatim>\<open>Direct\<close>, let \<open>raw\<close> be the
  matrix that \<^verbatim>\<open>sample\<close> returns for the encoder spec, a distribution or a literal, with
  the generator as the eval-point stage left it. If no row of \<open>raw\<close> is zero and the
  build succeeds, the encoders stored in the record are \<open>raw\<close> with every row divided
  by its own Euclidean norm (a positive factor: the direction is kept), and every
  stored row has Euclidean norm 1. Numbers are real numbers here; \<^verbatim>\<open>npext.norm\<close> is
  the row-wise Euclidean norm, as the spec describes it.
\<close>

theorem encoder_rows_unit_norm:
  assumes "\<not> is_Direct (neuron_type ens)"
    and "eval_stage d m ens = (Inr (pts, rng1), ws)"
    and "build_ensemble d m ens = (Inr (), m')"
    and "raw = fst (sample (ens_encoders ens) (n_neurons ens) (Some (dimensions ens)) rng1)"
    and "\<forall>row \<in> set raw. \<exists>x \<in> set row. x \<noteq> 0"
  shows "\<exists>b. params m' (ens_id ens) = Some b \<and>
             encoders b = map (\<lambda>row. map (\<lambda>x. x / euclid_norm row) row) raw \<and>
             (\<forall>row \<in> set (encoders b). euclid_norm row = 1)"
proof -
  from assms(3) have ok: "fst (build_ensemble d m ens) = Inr ()"
    and m': "m' = snd (build_ensemble d m ens)" by simp_all
  from ok obtain pts' rng1' ws' gn bs mr ic rng3 scaled where
    g: "eval_stage d m ens = (Inr (pts', rng1'), ws')"
    and b: "get_gain_bias ens (snd (raw_encoders ens rng1')) = Inr ((gn, bs, mr, ic), rng3)"
    and s: "scale_stage ens rng1' gn = Inr scaled"
    by (rule build_success_cases)
  from g assms(2) have eq: "rng1' = rng1" by simp
  have raw: "fst (raw_encoders ens rng1) = raw"
    using assms(1,4) by (cases "ens_encoders ens") (simp_all add: raw_encoders_def)
  have unit: "euclid_norm (map (\<lambda>x. x / euclid_norm row) row) = 1" if "row \<in> set raw" for row
    using that assms(5) by (intro euclid_norm_normalised) (auto simp: euclid_norm_zero_iff)
  show ?thesis
    using build_ok(2) [OF g b s] unit by (simp add: m' eq raw normalise_rows)
qed

theorem encoder_rows_unit_norm_witness:
  "\<not> is_Direct (neuron_type example_ens) \<and>
   fst (build_ensemble example_default empty_model example_ens) = Inr () \<and>
   fst (sample (ens_encoders example_ens) (n_neurons example_ens)
          (Some (dimensions example_ens)) (RngState 7)) = [[0, 2], [1, 0]] \<and>
   map_option encoders
     (params (snd (build_ensemble example_default empty_model example_ens)) 0) =
     Some [[0, 1], [1, 0]] \<and>
   euclid_norm [0, 1] = 1 \<and> euclid_norm [1, 0] = 1"
proof -
  have h1: "\<not> is_Direct (neuron_type example_ens)"
    by (simp add: example_ens_def rate_neurons_def)
  have h2: "eval_stage example_default empty_model example_ens =
              (Inr (NDArray [3, 2] [2, 0, 0, 2, 2, 2], RngState 7), [mismatch_warning])"
    by (simp add: example_defs stage_defs)
  have h3: "build_ensemble example_default empty_model example_ens =
              (Inr (), snd (build_ensemble example_default empty_model example_ens))"
    by (simp add: example_build)
  have h4: "[[0, 2], [1, 0]] =
              fst (sample (ens_encoders example_ens) (n_neurons example_ens)
                     (Some (dimensions example_ens)) (RngState 7))"
    by (simp add: example_ens_def)
  have h5: "\<forall>row \<in> set [[0, 2], [1, 0 :: real]]. \<exists>x \<in> set row. x \<noteq> 0" by simp
  show ?thesis
    using encoder_rows_unit_norm [OF h1 h2 h3 h4 h5] h1 h4
    by (simp add: example_build euclid_norm_def)
qed

text \<open>
  Claim C5. For an ensemble whose neuron type is not \<^verbatim>\<open>Direct\<close>, after a successful
  build that stored the record \<open>b\<close> with one gain per encoder row, the scaled encoders
  have as many rows as the encoders, row \<open>i\<close> is row \<open>i\<close> of the encoders with every
  entry multiplied by \<open>gain[i] / radius\<close>, and the signal registered under the role
  \<^verbatim>\<open>'encoders'\<close> of the ensemble is a read-only signal holding that matrix.
\<close>

theorem scaled_encoders_are_gain_over_radius:
  assumes "\<not> is_Direct (neuron_type ens)"
    and "build_ensemble d m ens = (Inr (), m')"
    and "params m' (ens_id ens) = Some b"
    and "length (gain b) = length (encoders b)"
  shows "length (scaled_encoders b) = length (encoders b) \<and>
         (\<forall>i < length (encoders b).
            scaled_encoders b ! i = map (\<lambda>x. x * (gain b ! i / radius ens)) (encoders b ! i)) \<and>
         (\<exists>r. sig m' (Ens (ens_id ens), ''encoders'') = Some r \<and> r < length (signals m') \<and>
              signals m' ! r =
                Signal (Mat (scaled_encoders b)) (ens_str ens @ ''.scaled_encoders'') True)"
proof -
  from assms(2) have ok: "fst (build_ensemble d m ens) = Inr ()"
    and m': "m' = snd (build_ensemble d m ens)" by simp_all
  from ok obtain pts rng1 ws gn bs mr ic rng3 scaled where
    g: "eval_stage d m ens = (Inr (pts, rng1), ws)"
    and gb: "get_gain_bias ens (snd (raw_encoders ens rng1)) = Inr ((gn, bs, mr, ic), rng3)"
    and s: "scale_stage ens rng1 gn = Inr scaled"
    by (rule build_success_cases)
  let ?E = "unit_encoders ens rng1"
  have fields: "encoders b = ?E" "scaled_encoders b = scaled" "gain b = gn"
    using build_ok(2) [OF g gb s] assms(3) by (auto simp: m')
  have len: "length ?E = length gn" using assms(4) fields by simp
  have sc: "scaled = map2 (\<lambda>row w. map (\<lambda>x. x * w) row) ?E (map (\<lambda>g. g / radius ens) gn)"
    using s assms(1) len by (simp add: mul_column_def)
  have rows: "scaled ! i = map (\<lambda>x. x * (gn ! i / radius ens)) (?E ! i)" if "i < length ?E" for i
    using that len by (simp add: sc)
  have "length scaled = length ?E" using len by (simp add: sc)
  with rows build_ok_signals(1,2,3) [OF g gb s refl] show ?thesis
    by (simp add: m' fields)
qed

theorem scaled_encoders_are_gain_over_radius_witness:
  "\<not> is_Direct (neuron_type example_ens) \<and>
   fst (build_ensemble example_default empty_model example_ens) = Inr () \<and>
   radius example_ens = 2 \<and>
   params (snd (build_ensemble example_default empty_model example_ens)) 0 =
     Some \<lparr>eval_points = NDArray [3, 2] [2, 0, 0, 2, 2, 2],
           encoders = [[0, 1], [1, 0]], intercepts = None, max_rates = None,
           scaled_encoders = [[0 * (2 / 2), 1 * (2 / 2)], [1 * (4 / 2), 0 * (4 / 2)]],
           gain = [2, 4], bias = [7, 7]\<rparr> \<and>
   sig (snd (build_ensemble example_default empty_model example_ens)) (Ens 0, ''encoders'') =
     Some 4 \<and>
   signals (snd (build_ensemble example_default empty_model example_ens)) ! 4 =
     Signal (Mat [[0, 1], [2, 0]]) ''<Ensemble A>.scaled_encoders'' True"
proof -
  let ?b = "\<lparr>eval_points = NDArray [3, 2] [2, 0, 0, 2, 2, 2],
             encoders = [[0, 1], [1, 0]], intercepts = None, max_rates = None,
             scaled_encoders = [[0, 1], [2, 0]], gain = [2, 4], bias = [7, 7 :: real]\<rparr>"
  have h1: "\<not> is_Direct (neuron_type example_ens)"
    by (simp add: example_ens_def rate_neurons_def)
  have h2: "build_ensemble example_default empty_model example_ens =
              (Inr (), snd (build_ensemble example_default empty_model example_ens))"
    by (simp add: example_build)
  have h3: "params (snd (build_ensemble example_default empty_model example_ens))
              (ens_id example_ens) = Some ?b"
    by (simp add: example_build) (simp add: example_ens_def)
  have h4: "length (gain ?b) = length (encoders ?b)" by simp
  have r: "radius example_ens = 2" by (simp add: example_ens_def)
  show ?thesis
    using scaled_encoders_are_gain_over_radius [OF h1 h2 h3 h4] h1 r
    by (simp add: example_build)
qed

subsection \<open>Aborted builds\<close>

text \<open>
  Claim C6. Let exactly one of gain and bias be specified, and let the eval-point spec
  be one that an ensemble can hold: a distribution or a 2-dimensional literal array.
  Then the build aborts with the \<^verbatim>\<open>NotImplementedError\<close> of \<^verbatim>\<open>get_gain_bias\<close>, whose message
  says that gain or bias was set but not both. When the error propagates, the build
  has registered nothing under the role \<^verbatim>\<open>'encoders'\<close> of the ensemble, the only
  signal object it has created is the input signal, and it has stored no record.
\<close>

theorem exactly_one_of_gain_bias_aborts_build:
  assumes "(ens_gain ens = None) \<noteq> (ens_bias ens = None)"
    and "case ens_eval_points ens of Distribution f \<Rightarrow> True | Literal a \<Rightarrow> ndim a = 2"
  shows "fst (build_ensemble d m ens) = Inl (NotImplementedError (not_both_message ens)) \<and>
         sig (snd (build_ensemble d m ens)) (Ens (ens_id ens), ''encoders'') =
           sig m (Ens (ens_id ens), ''encoders'') \<and>
         signals (snd (build_ensemble d m ens)) =
           signals m @
             [Signal (Vec (zeros (dimensions ens))) (ens_str ens @ ''.signal'') False] \<and>
         params (snd (build_ensemble d m ens)) = params m"
proof -
  obtain r ws where g: "eval_stage d m ens = (r, ws)"
    by (cases "eval_stage d m ens")
  have "\<exists>p. r = Inr p"
    using g assms(2)
    by (cases "ens_eval_points ens")
       (auto simp add: gen_eval_points_def Let_def split_beta ndim_def
          split: option.splits list.splits)
  then obtain pts rng1 where r: "r = Inr (pts, rng1)" by (cases r) auto
  from build_gain_fail [OF g [unfolded r] get_gain_bias_one [OF assms(1)]]
  show ?thesis by simp
qed

theorem exactly_one_of_gain_bias_aborts_build_witness:
  "(ens_gain gain_only_ens = None) \<noteq> (ens_bias gain_only_ens = None) \<and>
   ens_eval_points gain_only_ens = Literal (NDArray [3, 2] [1, 0, 0, 1, 1, 1]) \<and>
   ndim (NDArray [3, 2] [1, 0, 0, 1, 1, 1]) = 2 \<and>
   fst (build_ensemble example_default empty_model gain_only_ens) =
     Inl (NotImplementedError
            ''gain or bias set for <Ensemble A>, but not both. Solving for one given the other is not implemented yet.'') \<and>
   sig (snd (build_ensemble example_default empty_model gain_only_ens)) (Ens 0, ''encoders'') =
     None \<and>
   signals (snd (build_ensemble example_default empty_model gain_only_ens)) =
     [Signal (Vec [0, 0]) ''<Ensemble A>.signal'' False] \<and>
   params (snd (build_ensemble example_default empty_model gain_only_ens)) 0 = None"
proof -
  have h1: "(ens_gain gain_only_ens = None) \<noteq> (ens_bias gain_only_ens = None)"
    by (simp add: gain_only_ens_def example_ens_def)
  have e: "ens_eval_points gain_only_ens = Literal (NDArray [3, 2] [1, 0, 0, 1, 1, 1])"
    by (simp add: gain_only_ens_def example_ens_def)
  have n: "ndim (NDArray [3, 2] [1, 0, 0, 1, 1, 1]) = 2" by (simp add: ndim_def)
  have h2: "case ens_eval_points gain_only_ens of
              Distribution f \<Rightarrow> True | Literal a \<Rightarrow> ndim a = 2"
    by (simp add: e n)
  have c: "fst (build_ensemble example_default empty_model gain_only_ens) =
     Inl (NotImplementedError
            ''gain or bias set for <Ensemble A>, but not both. Solving for one given the other is not implemented yet.'') \<and>
   sig (snd (build_ensemble example_default empty_model gain_only_ens)) (Ens 0, ''encoders'') =
     None \<and>
   signals (snd (build_ensemble example_default empty_model gain_only_ens)) =
     [Signal (Vec [0, 0]) ''<Ensemble A>.signal'' False] \<and>
   params (snd (build_ensemble example_default empty_model gain_only_ens)) 0 = None"
    by (simp add: gain_only_build)
  show ?thesis
    using exactly_one_of_gain_bias_aborts_build [OF h1 h2, of example_default empty_model]
      h1 e n c
    by (elim conjE) (intro conjI, assumption+)
qed

text \<open>
  Claim C10, as amended. When the build aborts with the \<^verbatim>\<open>NotImplementedError\<close> of
  \<^verbatim>\<open>get_gain_bias\<close>, exactly one of gain and bias is specified, the eval points were
  generated from the generator derived from the seed, and the state left behind is the
  state before the build with: the warnings of the eval-point stage, a new signal of
  \<open>D\<close> zeros named after the ensemble, registered under the role \<^verbatim>\<open>'in'\<close> of the
  ensemble, and a \<^verbatim>\<open>Reset\<close> operator on that signal at the end of the operator list.
  Nothing undoes these changes. The generation of the eval points advances the
  generator only when the eval-point spec is a distribution: the generator is then in
  the state the distribution's draw left it in; for a literal array it is still in the
  state derived from the seed.
\<close>

theorem abort_leaves_input_signal_and_reset:
  assumes "fst (build_ensemble d m ens) = Inl (NotImplementedError msg)"
  shows "(ens_gain ens = None) \<noteq> (ens_bias ens = None) \<and>
         (\<exists>pts rng1 ws.
            eval_stage d m ens = (Inr (pts, rng1), ws) \<and>
            rng1 =
              (case ens_eval_points ens of
                 Literal a \<Rightarrow> RandomState (seeds m (ens_id ens))
               | Distribution f \<Rightarrow>
                   snd (f (case n_eval_points ens of
                             None \<Rightarrow> d (n_neurons ens) (dimensions ens)
                           | Some n \<Rightarrow> n)
                          (Some (dimensions ens)) (RandomState (seeds m (ens_id ens))))) \<and>
            snd (build_ensemble d m ens) =
              m\<lparr>warnings := ws,
                signals := signals m @
                  [Signal (Vec (zeros (dimensions ens))) (ens_str ens @ ''.signal'') False],
                sig := (sig m)((Ens (ens_id ens), ''in'') \<mapsto> length (signals m)),
                operators := operators m @ [Reset (length (signals m))]\<rparr>)"
proof -
  obtain r ws where g: "eval_stage d m ens = (r, ws)"
    by (cases "eval_stage d m ens")
  show ?thesis
  proof (cases r)
    case (Inl e)
    with g build_eval_fail [of d ens m e ws] assms gen_eval_points_error [of d ens _ _ True _ e ws]
    show ?thesis by auto
  next
    case (Inr p)
    obtain pts rng1 where p: "p = (pts, rng1)" by (cases p)
    note g' = g [unfolded Inr p]
    show ?thesis
    proof (cases "get_gain_bias ens (snd (raw_encoders ens rng1))")
      case (Inl e)
      with build_gain_fail [OF g' Inl] get_gain_bias_error_config [OF Inl] g'
        gen_eval_points_rng [OF g']
      show ?thesis by simp
    next
      case b: (Inr q)
      obtain gn bs mr ic rng3 where q: "q = ((gn, bs, mr, ic), rng3)" by (cases q) auto
      note b' = b [unfolded q]
      show ?thesis
      proof (cases "scale_stage ens rng1 gn")
        case (Inl e)
        with assms build_scale_fail [OF g' b' Inl] scale_error [OF Inl] show ?thesis by simp
      next
        case s: (Inr scaled)
        with assms build_ok(1) [OF g' b' s] show ?thesis by simp
      qed
    qed
  qed
qed

theorem abort_leaves_input_signal_and_reset_witness:
  "fst (build_ensemble example_default empty_model gain_only_dist_ens) =
     Inl (NotImplementedError
            ''gain or bias set for <Ensemble A>, but not both. Solving for one given the other is not implemented yet.'') \<and>
   (ens_gain gain_only_dist_ens = None) \<noteq> (ens_bias gain_only_dist_ens = None) \<and>
   RandomState (seeds empty_model (ens_id gain_only_dist_ens)) = RngState 7 \<and>
   eval_stage example_default empty_model gain_only_dist_ens =
     (Inr (NDArray [2, 2] [14, 14, 14, 14], RngState 8), []) \<and>
   snd (build_ensemble example_default empty_model gain_only_dist_ens) =
     \<lparr>seeds = example_seeds,
      sig = [(Ens 0, ''in'') \<mapsto> 0],
      operators = [Reset 0],
      params = Map.empty,
      signals = [Signal (Vec [0, 0]) ''<Ensemble A>.signal'' False],
      warnings = []\<rparr>"
proof -
  have h: "fst (build_ensemble example_default empty_model gain_only_dist_ens) =
     Inl (NotImplementedError
            ''gain or bias set for <Ensemble A>, but not both. Solving for one given the other is not implemented yet.'')"
    by (simp add: gain_only_dist_build)
  have r: "RandomState (seeds empty_model (ens_id gain_only_dist_ens)) = RngState 7"
    by (simp add: example_defs RandomState_def)
  have s: "snd (build_ensemble example_default empty_model gain_only_dist_ens) =
     \<lparr>seeds = example_seeds,
      sig = [(Ens 0, ''in'') \<mapsto> 0],
      operators = [Reset 0],
      params = Map.empty,
      signals = [Signal (Vec [0, 0]) ''<Ensemble A>.signal'' False],
      warnings = []\<rparr>"
    by (simp add: gain_only_dist_build)
  note e = gain_only_dist_eval_stage
  show ?thesis
    using abort_leaves_input_signal_and_reset [OF h] h r e s
    by (elim conjE) (intro conjI, assumption+)
qed

text \<open>
  Claim C10 as stated has the generation of the eval points advance the generator.
  The example ensemble with the bias removed has literal eval points: its build aborts
  with the \<^verbatim>\<open>NotImplementedError\<close>, and the generator that the eval-point stage hands on
  is in the state derived from the seed.
\<close>

theorem literal_eval_points_leave_generator_as_seeded:
  "ens_eval_points gain_only_ens = Literal (NDArray [3, 2] [1, 0, 0, 1, 1, 1]) \<and>
   fst (build_ensemble example_default empty_model gain_only_ens) =
     Inl (NotImplementedError
            ''gain or bias set for <Ensemble A>, but not both. Solving for one given the other is not implemented yet.'') \<and>
   RandomState (seeds empty_model (ens_id gain_only_ens)) = RngState 7 \<and>
   eval_stage example_default empty_model gain_only_ens =
     (Inr (NDArray [3, 2] [2, 0, 0, 2, 2, 2], RngState 7), [mismatch_warning])"
  by (simp only: gain_only_build gain_only_eval_stage fst_conv)
     (simp add: example_defs RandomState_def)

subsection \<open>Literal eval points\<close>

text \<open>
  Claim C8. When the eval points are a literal array that is not 2-dimensional,
  \<^verbatim>\<open>gen_eval_points\<close> raises and returns no points, the build aborts with that error, and
  the build stores no record, registers no signal and adds no operator. The error is
  the \<^verbatim>\<open>AssertionError\<close> of \<^verbatim>\<open>assert eval_points.ndim == 2\<close>, except for a
  0-dimensional array when a point-count override is set: there
  \<^verbatim>\<open>eval_points.shape[0]\<close> raises \<^verbatim>\<open>IndexError\<close> one step earlier.
\<close>

theorem non_2d_eval_points_abort:
  assumes "ens_eval_points ens = Literal a" and "ndim a \<noteq> 2"
  shows "fst (gen_eval_points d ens (Literal a) rng sc ws) =
           Inl (if n_eval_points ens \<noteq> None \<and> shape a = [] then IndexError
                else AssertionError) \<and>
         fst (build_ensemble d m ens) =
           Inl (if n_eval_points ens \<noteq> None \<and> shape a = [] then IndexError
                else AssertionError) \<and>
         params (snd (build_ensemble d m ens)) = params m \<and>
         sig (snd (build_ensemble d m ens)) = sig m \<and>
         operators (snd (build_ensemble d m ens)) = operators m \<and>
         signals (snd (build_ensemble d m ens)) = signals m"
proof -
  let ?e = "if n_eval_points ens \<noteq> None \<and> shape a = [] then IndexError else AssertionError"
  have g: "fst (gen_eval_points d ens (Literal a) r sc' ws') = Inl ?e" for r sc' ws'
    using assms(2) by (simp add: gen_eval_points_literal)
  obtain ws' where "eval_stage d m ens = (Inl ?e, ws')"
    using g [of "RandomState (seeds m (ens_id ens))" True "warnings m"] assms(1)
    by (cases "gen_eval_points d ens (Literal a) (RandomState (seeds m (ens_id ens))) True
                 (warnings m)") simp
  from build_eval_fail [OF this] g show ?thesis by simp
qed

theorem non_2d_eval_points_abort_witness:
  "ens_eval_points cube_ens = Literal (NDArray [1, 1, 1] [0]) \<and>
   ndim (NDArray [1, 1, 1] [0]) \<noteq> 2 \<and>
   fst (build_ensemble example_default empty_model cube_ens) = Inl AssertionError \<and>
   params (snd (build_ensemble example_default empty_model cube_ens)) = Map.empty \<and>
   sig (snd (build_ensemble example_default empty_model cube_ens)) = Map.empty \<and>
   operators (snd (build_ensemble example_default empty_model cube_ens)) = [] \<and>
   signals (snd (build_ensemble example_default empty_model cube_ens)) = []"
proof -
  have h1: "ens_eval_points cube_ens = Literal (NDArray [1, 1, 1] [0])"
    by (simp add: cube_ens_def)
  have h2: "ndim (NDArray [1, 1, 1] [0]) \<noteq> 2" by (simp add: ndim_def)
  have c: "fst (build_ensemble example_default empty_model cube_ens) = Inl AssertionError \<and>
   params (snd (build_ensemble example_default empty_model cube_ens)) = Map.empty \<and>
   sig (snd (build_ensemble example_default empty_model cube_ens)) = Map.empty \<and>
   operators (snd (build_ensemble example_default empty_model cube_ens)) = [] \<and>
   signals (snd (build_ensemble example_default empty_model cube_ens)) = []"
    by (simp add: cube_build) (simp add: empty_model_def)
  show ?thesis
    using non_2d_eval_points_abort
            [OF h1 h2, of example_default "RngState 7" True "[]" empty_model] h1 h2 c
    by blast
qed

text \<open>
  Claim C7. Let the eval points be a literal 2-dimensional array whose row count
  differs from the point-count override, in an ensemble that is otherwise one the
  builder supports: gain and bias both set or both unset, and arrays of the declared
  shapes. Then \<^verbatim>\<open>gen_eval_points\<close> succeeds, emits the mismatch warning and returns the
  array with its own shape (its actual rows, not the override) and every coordinate
  multiplied by the radius; without the scaling it emits the same warning and returns
  the array as it is, so the warning and the shape check do not depend on the scaling,
  which is the last step. The build succeeds, the warning has been emitted and the
  record holds the scaled array.
\<close>

theorem mismatching_literal_eval_points:
  assumes "ens_eval_points ens = Literal a" and "ndim a = 2"
    and "n_eval_points ens = Some k" and "hd (shape a) \<noteq> k"
    and "(ens_gain ens = None) = (ens_bias ens = None)"
    and "declared_shapes ens (RandomState (seeds m (ens_id ens)))"
  shows "gen_eval_points d ens (Literal a) rng False ws =
           (Inr (a, rng), ws @ [mismatch_warning]) \<and>
         gen_eval_points d ens (Literal a) rng True ws =
           (Inr (NDArray (shape a) (map (\<lambda>x. x * radius ens) (data a)), rng),
            ws @ [mismatch_warning]) \<and>
         fst (build_ensemble d m ens) = Inr () \<and>
         warnings (snd (build_ensemble d m ens)) = warnings m @ [mismatch_warning] \<and>
         (\<exists>b. params (snd (build_ensemble d m ens)) (ens_id ens) = Some b \<and>
              eval_points b = NDArray (shape a) (map (\<lambda>x. x * radius ens) (data a)))"
proof -
  have sh: "shape a \<noteq> []" using assms(2) by (auto simp add: ndim_def)
  have gen: "gen_eval_points d ens (Literal a) r sc ws' =
               (Inr (if sc then scale_array a (radius ens) else a, r), ws' @ [mismatch_warning])"
    for r sc ws'
    using assms(2,3,4) sh by (simp add: gen_eval_points_literal)
  let ?pts = "NDArray (shape a) (map (\<lambda>x. x * radius ens) (data a))"
  let ?rng = "RandomState (seeds m (ens_id ens))"
  have g: "eval_stage d m ens = (Inr (?pts, ?rng), warnings m @ [mismatch_warning])"
    using gen [of ?rng True "warnings m"] assms(1) by (simp add: scale_array_def)
  have build: "fst (build_ensemble d m ens) = Inr () \<and>
               warnings (snd (build_ensemble d m ens)) = warnings m @ [mismatch_warning] \<and>
               (\<exists>b. params (snd (build_ensemble d m ens)) (ens_id ens) = Some b \<and>
                    eval_points b = ?pts)"
  proof (cases "get_gain_bias ens (snd (raw_encoders ens ?rng))")
    case (Inl e)
    with get_gain_bias_error_config [OF Inl] assms(5) show ?thesis by simp
  next
    case b: (Inr q)
    obtain gn bs mr ic rng3 where q: "q = ((gn, bs, mr, ic), rng3)" by (cases q) auto
    note b' = b [unfolded q]
    have len: "is_Direct (neuron_type ens) \<or>
               length (fst (raw_encoders ens ?rng)) = length gn"
      using assms(6) b' by (auto simp add: declared_shapes_def)
    have "\<exists>scaled. scale_stage ens ?rng gn = Inr scaled"
      using len by (auto simp add: mul_column_def normalise_rows)
    then obtain scaled where s: "scale_stage ens ?rng gn = Inr scaled" ..
    from build_ok(1,2,3) [OF g b' s] show ?thesis by simp
  qed
  with gen [of rng False ws] gen [of rng True ws] show ?thesis
    by (simp add: scale_array_def)
qed

theorem mismatching_literal_eval_points_witness:
  "ens_eval_points example_ens = Literal (NDArray [3, 2] [1, 0, 0, 1, 1, 1]) \<and>
   ndim (NDArray [3, 2] [1, 0, 0, 1, 1, 1]) = 2 \<and>
   n_eval_points example_ens = Some 2 \<and>
   hd (shape (NDArray [3, 2] [1, 0, 0, 1, 1, 1])) \<noteq> 2 \<and>
   (ens_gain example_ens = None) = (ens_bias example_ens = None) \<and>
   declared_shapes example_ens (RandomState (seeds empty_model (ens_id example_ens))) \<and>
   radius example_ens = 2 \<and>
   fst (build_ensemble example_default empty_model example_ens) = Inr () \<and>
   warnings (snd (build_ensemble example_default empty_model example_ens)) =
     [mismatch_warning] \<and>
   map_option eval_points
     (params (snd (build_ensemble example_default empty_model example_ens)) 0) =
     Some (NDArray [3, 2] [2, 0, 0, 2, 2, 2])"
proof -
  have h1: "ens_eval_points example_ens = Literal (NDArray [3, 2] [1, 0, 0, 1, 1, 1])"
    by (simp add: example_ens_def)
  have h2: "ndim (NDArray [3, 2] [1, 0, 0, 1, 1, 1]) = 2" by (simp add: ndim_def)
  have h3: "n_eval_points example_ens = Some 2" by (simp add: example_ens_def)
  have h4: "hd (shape (NDArray [3, 2] [1, 0, 0, 1, 1, 1])) \<noteq> 2" by simp
  have h5: "(ens_gain example_ens = None) = (ens_bias example_ens = None)"
    by (simp add: example_ens_def)
  have h6: "declared_shapes example_ens (RandomState (seeds empty_model (ens_id example_ens)))"
    by (simp add: declared_shapes_def example_defs stage_defs eval_nat_numeral)
  have r: "radius example_ens = 2" by (simp add: example_ens_def)
  have c: "fst (build_ensemble example_default empty_model example_ens) = Inr () \<and>
   warnings (snd (build_ensemble example_default empty_model example_ens)) =
     [mismatch_warning] \<and>
   map_option eval_points
     (params (snd (build_ensemble example_default empty_model example_ens)) 0) =
     Some (NDArray [3, 2] [2, 0, 0, 2, 2, 2])"
    by (simp add: example_build)
  show ?thesis
    using mismatching_literal_eval_points
            [OF h1 h2 h3 h4 h5 h6, of example_default "RngState 7" "[]"]
      h1 h2 h3 h4 h5 h6 r c
    by (elim conjE) (intro conjI, assumption+)
qed

end
